theory Spec2Isabelle
  imports Main
begin

section \<open>Content model (shared/sdui.types.ts)\<close>

text \<open>
  The interfaces of \<^verbatim>\<open>shared/sdui.types.ts\<close>. An optional field \<^verbatim>\<open>f?: T\<close> is a
  \<open>T option\<close> (\<open>None\<close> is \<^verbatim>\<open>undefined\<close>). The string-literal union types
  (\<^verbatim>\<open>SectionType\<close>, the spacing, the position of an action, ...) exist only at
  compile time: at run time they are strings, compared with \<^verbatim>\<open>===\<close>, and the
  renderer has a branch for strings outside the union, so they are \<open>string\<close> here.
  \<^verbatim>\<open>Record<string, unknown>\<close> is a list of key-value pairs over JSON values.
  Field names carry the interface as a prefix, several interfaces having a field
  \<^verbatim>\<open>id\<close>, \<^verbatim>\<open>type\<close> or \<^verbatim>\<open>title\<close>.
\<close>

datatype json =
    JNull
  | JBool bool
  | JNum int
  | JStr string
  | JArr "json list"
  | JObj "(string \<times> json) list"

type_synonym bag = "(string \<times> json) list"

record contentAction =
  ca_id :: string
  ca_label :: string
  ca_type :: string
  ca_action :: string
  ca_payload :: "bag option"
  ca_condition :: "string option"

record contentItem =
  ci_id :: string
  ci_title :: string
  ci_subtitle :: "string option"
  ci_description :: "string option"
  ci_image :: "string option"
  ci_icon :: "string option"
  ci_badge :: "string option"
  ci_metadata :: "bag option"
  ci_actions :: "contentAction list option"

record layoutAction =
  la_id :: string
  la_label :: string
  la_icon :: "string option"
  la_type :: string
  la_action :: string
  la_payload :: "bag option"
  la_position :: "string option"

record dataSource =
  ds_type :: string
  ds_endpoint :: "string option"
  ds_method :: "string option"
  ds_params :: "bag option"
  ds_transform :: "string option"
  ds_cache :: "(int \<times> string) option"

record sectionContent =
  sc_items :: "contentItem list option"
  sc_template :: "string option"
  sc_dataSource :: "dataSource option"

record visibilityRule =
  vr_condition :: string
  vr_customRule :: "string option"

datatype layoutSection =
  LayoutSection
    (ls_id: string)
    (ls_type: string)
    (ls_title: "string option")
    (ls_subtitle: "string option")
    (ls_content: "sectionContent option")
    (ls_layout: "string option")
    (ls_columns: "int option")
    (ls_spacing: "string option")
    (ls_visibility: "visibilityRule option")
    (ls_children: "layoutSection list option")

record layoutConfig =
  lc_mode :: string
  lc_title :: string
  lc_description :: "string option"
  lc_sections :: "layoutSection list"
  lc_actions :: "layoutAction list option"
  lc_metadata :: "bag option"

text \<open>The thirteen members of the union type \<^verbatim>\<open>SectionType\<close>, in declaration order.\<close>

definition SectionType :: "string list" where
  "SectionType =
     [''header'', ''hero'', ''cards'', ''list'', ''timeline'', ''calendar'', ''map'',
      ''form'', ''gallery'', ''stats'', ''alerts'', ''recommendations'', ''footer'']"

section \<open>Rendered output\<close>

text \<open>
  What a render pass produces: a tree of elements. An element has a tag (an HTML tag, or
  the name of a component that this development leaves unexpanded, with the props it
  receives), its props in source order, and its children. \<open>'cb\<close> is the type of the \<^verbatim>\<open>onAction\<close> callback, which the renderer only
  passes on. \<open>OnClick h i p\<close> is the closure \<^verbatim>\<open>() => onAction?.(i, p)\<close> over the
  handler \<open>h\<close>.
\<close>

datatype 'cb propval =
    Undefined
  | Str string
  | Items "contentItem list"
  | Data bag
  | Callback 'cb
  | OnClick "'cb option" string "bag option"

datatype 'cb node =
    Elem string "(string \<times> 'cb propval) list" "'cb node list"
  | Text string

text \<open>Reading a property of \<^verbatim>\<open>undefined\<close> raises a \<^verbatim>\<open>TypeError\<close>.\<close>

datatype error = TypeError

text \<open>A prop whose value may be \<^verbatim>\<open>undefined\<close>.\<close>

definition opt :: "('a \<Rightarrow> 'cb propval) \<Rightarrow> 'a option \<Rightarrow> 'cb propval" where
  "opt f x = (case x of None \<Rightarrow> Undefined | Some v \<Rightarrow> f v)"

text \<open>
  JavaScript truthiness of an optional string: \<^verbatim>\<open>undefined\<close> and the empty string are
  falsy.
\<close>

definition truthy_str :: "string option \<Rightarrow> bool" where
  "truthy_str x = (case x of None \<Rightarrow> False | Some s \<Rightarrow> s \<noteq> [])"

text \<open>\<^verbatim>\<open>{x && <E/>}\<close> for an optional string \<open>x\<close>: the element when \<open>x\<close> is truthy, nothing otherwise.\<close>

definition when_str :: "string option \<Rightarrow> (string \<Rightarrow> 'cb node) \<Rightarrow> 'cb node list" where
  "when_str x f = (case x of None \<Rightarrow> [] | Some s \<Rightarrow> if s \<noteq> [] then [f s] else [])"

text \<open>
  The decimal string of a whole number, as a template literal prints a safe integer
  (magnitude at most \<open>2\<^sup>5\<^sup>3 - 1\<close>). Beyond that range a JavaScript number is a double,
  printed from its shortest round-trip digits and, from \<open>10\<^sup>2\<^sup>1\<close> on, in exponent
  notation (\<^verbatim>\<open>1e+21\<close>); fractions and \<^verbatim>\<open>NaN\<close> are no whole numbers at all. This
  function does not reproduce any of that: \<^verbatim>\<open>columns\<close> is the integer column count of
  the data model, and the properties below use the printed form of 3 only.
\<close>

fun digits :: "nat \<Rightarrow> string" where
  "digits n =
     (if n < 10 then [''0123456789'' ! n]
      else digits (n div 10) @ [''0123456789'' ! (n mod 10)])"

declare digits.simps [simp del]

definition num_to_string :: "int \<Rightarrow> string" where
  "num_to_string n = (if n < 0 then CHR ''-'' # digits (nat (- n)) else digits (nat n))"

text \<open>
  Rendering a list of components in order: the first one that raises aborts the pass.
\<close>

fun sequence_sum :: "('e + 'a) list \<Rightarrow> 'e + 'a list" where
  "sequence_sum [] = Inr []"
| "sequence_sum (Inl e # _) = Inl e"
| "sequence_sum (Inr x # rs) = (case sequence_sum rs of Inl e \<Rightarrow> Inl e | Inr xs \<Rightarrow> Inr (x # xs))"

section \<open>Sub-renderers\<close>

text \<open>
  The components under \<^verbatim>\<open>components/SDUI/sections\<close> that are expanded here:
  \<^verbatim>\<open>CardGrid\<close>, \<^verbatim>\<open>ListSection\<close> and \<^verbatim>\<open>RecommendationsSection\<close>. A component is a
  function of its props as React hands them over, where the props interface is erased
  and any prop may be \<^verbatim>\<open>undefined\<close>: a default parameter (\<^verbatim>\<open>columns = 3\<close>) replaces
  \<^verbatim>\<open>undefined\<close> only, and \<^verbatim>\<open>items.map\<close> on an \<^verbatim>\<open>undefined\<close> \<^verbatim>\<open>items\<close> raises.
  The components of the UI kit (\<^verbatim>\<open>Button\<close>, \<^verbatim>\<open>Card\<close>, ...) stay unexpanded elements.
\<close>

definition default_param :: "'a option \<Rightarrow> 'a \<Rightarrow> 'a" where
  "default_param x d = (case x of None \<Rightarrow> d | Some v \<Rightarrow> v)"

definition cls :: "string \<Rightarrow> string \<times> 'cb propval" where
  "cls c = (''className'', Str c)"

definition CardGrid_button :: "'cb option \<Rightarrow> contentAction \<Rightarrow> 'cb node" where
  "CardGrid_button onAction action =
     Elem ''Button''
       [(''key'', Str (ca_id action)),
        (''variant'', Str (if ca_type action = ''primary'' then ''default''
                           else if ca_type action = ''tertiary'' then ''ghost''
                           else ca_type action)),
        (''size'', Str ''sm''),
        (''onClick'', OnClick onAction (ca_id action) (ca_payload action))]
       [Text (ca_label action)]"

definition CardGrid_card :: "'cb option \<Rightarrow> contentItem \<Rightarrow> 'cb node" where
  "CardGrid_card onAction item =
     Elem ''Card'' [(''key'', Str (ci_id item)), cls ''hover:shadow-lg transition-shadow'']
       (when_str (ci_image item) (\<lambda>image.
          Elem ''div'' [cls ''h-48 bg-muted overflow-hidden rounded-t-lg'']
            [Elem ''img'' [(''src'', Str image), (''alt'', Str (ci_title item)),
                           cls ''w-full h-full object-cover''] []])
        @ [Elem ''CardHeader'' []
             [Elem ''div'' [cls ''flex items-start justify-between gap-2'']
                ([Elem ''div'' [cls ''flex-1'']
                    ([Elem ''CardTitle'' [] [Text (ci_title item)]]
                     @ when_str (ci_subtitle item) (\<lambda>subtitle.
                         Elem ''CardDescription'' [] [Text subtitle]))]
                 @ when_str (ci_badge item) (\<lambda>badge.
                     Elem ''span''
                       [cls ''px-2 py-1 bg-primary/10 text-primary text-xs font-semibold rounded-full whitespace-nowrap'']
                       [Text badge]))]]
        @ when_str (ci_description item) (\<lambda>description.
            Elem ''CardContent'' []
              [Elem ''p'' [cls ''text-sm text-muted-foreground''] [Text description]])
        @ (case ci_actions item of
             None \<Rightarrow> []
           | Some actions \<Rightarrow>
               if length actions > 0
               then [Elem ''CardContent'' [cls ''pt-0'']
                       [Elem ''div'' [cls ''flex gap-2''] (map (CardGrid_button onAction) actions)]]
               else []))"

definition gridClass :: "int \<Rightarrow> string \<Rightarrow> string" where
  "gridClass columns spacing =
     ''grid grid-cols-1 md:grid-cols-2 lg:grid-cols-'' @ num_to_string columns @ '' gap-''
     @ (if spacing = ''compact'' then ''2'' else if spacing = ''spacious'' then ''8'' else ''4'')"

definition CardGrid ::
  "contentItem list option \<Rightarrow> int option \<Rightarrow> string option \<Rightarrow> 'cb option \<Rightarrow> error + 'cb node" where
  "CardGrid items columns spacing onAction =
     (case items of
        None \<Rightarrow> Inl TypeError
      | Some its \<Rightarrow>
          Inr (Elem ''div'' [cls (gridClass (default_param columns 3) (default_param spacing ''normal''))]
                 (map (CardGrid_card onAction) its)))"

definition ListSection_button :: "'cb option \<Rightarrow> contentAction \<Rightarrow> 'cb node" where
  "ListSection_button onAction action =
     Elem ''Button''
       [(''key'', Str (ca_id action)), (''variant'', Str ''outline''), (''size'', Str ''sm''),
        (''onClick'', OnClick onAction (ca_id action) (ca_payload action))]
       [Text (ca_label action)]"

definition spacingClass :: "string \<Rightarrow> string" where
  "spacingClass spacing =
     (if spacing = ''compact'' then ''py-2'' else if spacing = ''spacious'' then ''py-4'' else ''py-3'')"

definition ListSection_row :: "string \<Rightarrow> 'cb option \<Rightarrow> contentItem \<Rightarrow> 'cb node" where
  "ListSection_row spacing onAction item =
     Elem ''div''
       [(''key'', Str (ci_id item)),
        cls (''p-4 border border-border rounded-lg hover:bg-muted/50 transition-colors '' @ spacingClass spacing)]
       ([Elem ''div'' [cls ''flex items-start justify-between gap-4'']
           ([Elem ''div'' [cls ''flex-1'']
               ([Elem ''h3'' [cls ''font-semibold''] [Text (ci_title item)]]
                @ when_str (ci_subtitle item) (\<lambda>subtitle.
                    Elem ''p'' [cls ''text-sm text-muted-foreground''] [Text subtitle])
                @ when_str (ci_description item) (\<lambda>description.
                    Elem ''p'' [cls ''text-sm mt-1''] [Text description]))]
            @ when_str (ci_badge item) (\<lambda>badge.
                Elem ''span''
                  [cls ''px-2 py-1 bg-primary/10 text-primary text-xs font-semibold rounded-full'']
                  [Text badge]))]
        @ (case ci_actions item of
             None \<Rightarrow> []
           | Some actions \<Rightarrow>
               if length actions > 0
               then [Elem ''div'' [cls ''flex gap-2 mt-3''] (map (ListSection_button onAction) actions)]
               else []))"

definition ListSection ::
  "contentItem list option \<Rightarrow> string option \<Rightarrow> 'cb option \<Rightarrow> error + 'cb node" where
  "ListSection items spacing onAction =
     (case items of
        None \<Rightarrow> Inl TypeError
      | Some its \<Rightarrow>
          Inr (Elem ''div'' [cls ''space-y-2'']
                 (map (ListSection_row (default_param spacing ''normal'') onAction) its)))"

definition RecommendationsSection ::
  "string option \<Rightarrow> contentItem list option \<Rightarrow> bag option \<Rightarrow> 'cb option \<Rightarrow> error + 'cb node" where
  "RecommendationsSection title items data onAction =
     Inr (Elem ''div'' [cls ''p-4 bg-muted/50 rounded-lg border border-border'']
            (when_str title (\<lambda>t. Elem ''h3'' [cls ''font-semibold mb-2''] [Text t])
             @ [Elem ''p'' [cls ''text-sm text-muted-foreground'']
                  [Text ''RecommendationsSection placeholder'']]))"

section \<open>Section dispatcher (SectionRenderer.tsx)\<close>

text \<open>\<^verbatim>\<open>section.content?.items || []\<close>: an array is truthy, also when empty.\<close>

definition content_items :: "sectionContent option \<Rightarrow> contentItem list" where
  "content_items content =
     (case content of
        None \<Rightarrow> []
      | Some c \<Rightarrow> (case sc_items c of None \<Rightarrow> [] | Some its \<Rightarrow> its))"

text \<open>
  \<^verbatim>\<open>x || d\<close> on an optional number and on an optional string: \<^verbatim>\<open>undefined\<close>, \<^verbatim>\<open>0\<close>
  and the empty string are falsy and give \<open>d\<close>.
\<close>

definition or_else_num :: "int option \<Rightarrow> int \<Rightarrow> int" where
  "or_else_num x d = (case x of None \<Rightarrow> d | Some n \<Rightarrow> if n \<noteq> 0 then n else d)"

definition or_else_str :: "string option \<Rightarrow> string \<Rightarrow> string" where
  "or_else_str x d = (case x of None \<Rightarrow> d | Some s \<Rightarrow> if s \<noteq> [] then s else d)"

text \<open>The \<^verbatim>\<open>default\<close> branch of the switch.\<close>

definition placeholder :: "string \<Rightarrow> 'cb node" where
  "placeholder type =
     Elem ''div'' [cls ''p-4 bg-muted rounded-lg'']
       [Elem ''p'' [cls ''text-muted-foreground''] [Text ''Unknown section type: '', Text type]]"

text \<open>
  The switch of \<^verbatim>\<open>renderSectionByType\<close>, a closure over the props \<open>section\<close>,
  \<open>onAction\<close> and \<open>data\<close> of the enclosing \<^verbatim>\<open>SectionRenderer\<close>. The components
  \<^verbatim>\<open>HeaderSection\<close>, \<^verbatim>\<open>HeroSection\<close>, \<^verbatim>\<open>TimelineSection\<close>, \<^verbatim>\<open>CalendarSection\<close>,
  \<^verbatim>\<open>MapSection\<close> and \<^verbatim>\<open>AlertsSection\<close> are left unexpanded: the dispatcher's result
  for them is the element it creates, with the props it passes.
\<close>

definition renderSectionByType ::
  "layoutSection \<Rightarrow> 'cb option \<Rightarrow> bag option \<Rightarrow> string \<Rightarrow> error + 'cb node" where
  "renderSectionByType section onAction data type =
     (if type = ''header'' then
        Inr (Elem ''HeaderSection''
               [(''title'', opt Str (ls_title section)), (''items'', Items []),
                (''onAction'', opt Callback onAction)] [])
      else if type = ''hero'' then
        Inr (Elem ''HeroSection''
               [(''title'', opt Str (ls_title section)),
                (''items'', Items (content_items (ls_content section))),
                (''onAction'', opt Callback onAction)] [])
      else if type = ''cards'' then
        CardGrid (Some (content_items (ls_content section)))
          (Some (or_else_num (ls_columns section) 3))
          (Some (or_else_str (ls_spacing section) ''normal''))
          onAction
      else if type = ''list'' then
        ListSection (Some (content_items (ls_content section)))
          (Some (or_else_str (ls_spacing section) ''normal''))
          onAction
      else if type = ''timeline'' then
        Inr (Elem ''TimelineSection''
               [(''items'', Items (content_items (ls_content section))),
                (''onAction'', opt Callback onAction)] [])
      else if type = ''calendar'' then
        Inr (Elem ''CalendarSection''
               [(''title'', opt Str (ls_title section)), (''data'', opt Data data),
                (''onAction'', opt Callback onAction)] [])
      else if type = ''map'' then
        Inr (Elem ''MapSection''
               [(''title'', opt Str (ls_title section)), (''data'', opt Data data),
                (''onAction'', opt Callback onAction)] [])
      else if type = ''alerts'' then
        Inr (Elem ''AlertsSection''
               [(''items'', Items (content_items (ls_content section))),
                (''onAction'', opt Callback onAction)] [])
      else if type = ''recommendations'' then
        RecommendationsSection None (Some (content_items (ls_content section))) None onAction
      else Inr (placeholder type))"

definition containerClass :: "string option \<Rightarrow> string" where
  "containerClass spacing =
     (if spacing = Some ''compact'' then ''py-2''
      else if spacing = Some ''spacious'' then ''py-12''
      else ''py-6'')"

text \<open>The heading the dispatcher itself puts above the dispatched content.\<close>

definition title_heading :: "string \<Rightarrow> 'cb node" where
  "title_heading title = Elem ''h2'' [cls ''text-3xl font-bold mb-6''] [Text title]"

text \<open>
  \<^verbatim>\<open>SectionRenderer\<close>: the optional heading, the dispatched content, then the children,
  each rendered by \<^verbatim>\<open>SectionRenderer\<close> again, inside one container. React renders the
  nested components in document order, so the dispatched content is rendered before the
  children, and an exception in any of them ends the pass. (The \<^verbatim>\<open>key\<close> of a nested
  \<^verbatim>\<open>SectionRenderer\<close> element belongs to the component element, not to what it expands
  to.)
\<close>

fun SectionRenderer :: "layoutSection \<Rightarrow> 'cb option \<Rightarrow> bag option \<Rightarrow> error + 'cb node" where
  "SectionRenderer (LayoutSection sid type title subtitle content layout columns spacing visibility children)
       onAction data =
     (let section = LayoutSection sid type title subtitle content layout columns spacing visibility children
      in case renderSectionByType section onAction data type of
           Inl e \<Rightarrow> Inl e
         | Inr body \<Rightarrow>
             (case (case children of
                      None \<Rightarrow> Inr []
                    | Some cs \<Rightarrow>
                        if length cs > 0
                        then (case sequence_sum (map (\<lambda>child. SectionRenderer child onAction data) cs) of
                                Inl e \<Rightarrow> Inl e
                              | Inr kids \<Rightarrow> Inr [Elem ''div'' [cls ''mt-6 space-y-6''] kids])
                        else Inr []) of
                Inl e \<Rightarrow> Inl e
              | Inr nested \<Rightarrow>
                  Inr (Elem ''section''
                         [(''id'', Str sid),
                          cls (containerClass spacing @ '' ''
                               @ (if layout = Some ''map'' then '''' else ''container mx-auto px-4''))]
                         ((if truthy_str title \<and> type \<noteq> ''header'' \<and> type \<noteq> ''hero''
                           then [title_heading (the title)] else [])
                          @ [body]
                          @ nested))))"

section \<open>Action bar and layout renderer (ActionBar.tsx, LayoutRenderer.tsx)\<close>

definition ActionBar_button :: "'cb option \<Rightarrow> layoutAction \<Rightarrow> 'cb node" where
  "ActionBar_button onAction action =
     Elem ''Button''
       [(''key'', Str (la_id action)),
        (''variant'', Str (if la_type action = ''primary'' then ''default'' else ''outline'')),
        (''onClick'', OnClick onAction (la_id action) (la_payload action)),
        cls ''shadow-lg'']
       [Text (la_label action)]"

definition ActionBar :: "layoutAction list option \<Rightarrow> 'cb option \<Rightarrow> error + 'cb node" where
  "ActionBar actions onAction =
     (case actions of
        None \<Rightarrow> Inl TypeError
      | Some acts \<Rightarrow>
          Inr (Elem ''div'' [cls ''fixed bottom-6 right-6 flex gap-2 flex-col items-end'']
                 (map (ActionBar_button onAction) acts)))"

definition loading_indicator :: "'cb node" where
  "loading_indicator =
     Elem ''div'' [cls ''flex items-center justify-center min-h-screen'']
       [Elem ''div'' [cls ''animate-spin rounded-full h-12 w-12 border-b-2 border-primary''] []]"

definition error_state :: "string \<Rightarrow> 'cb node" where
  "error_state error =
     Elem ''div'' [cls ''min-h-screen flex items-center justify-center bg-destructive/10'']
       [Elem ''div'' [cls ''text-center'']
          [Elem ''h2'' [cls ''text-2xl font-bold text-destructive mb-2''] [Text ''Error''],
           Elem ''p'' [cls ''text-muted-foreground''] [Text error]]]"

definition LayoutRenderer ::
  "layoutConfig \<Rightarrow> 'cb option \<Rightarrow> bag option \<Rightarrow> bool option \<Rightarrow> string option \<Rightarrow> error + 'cb node" where
  "LayoutRenderer config onAction data loading error =
     (if loading = Some True then Inr loading_indicator
      else if truthy_str error then Inr (error_state (the error))
      else
        case sequence_sum (map (\<lambda>section. SectionRenderer section onAction data) (lc_sections config)) of
          Inl e \<Rightarrow> Inl e
        | Inr sections \<Rightarrow>
            (case (case lc_actions config of
                     None \<Rightarrow> Inr []
                   | Some actions \<Rightarrow>
                       if length actions > 0
                       then (case ActionBar (Some (filter (\<lambda>a. la_position a = Some ''floating'') actions))
                                     onAction of
                               Inl e \<Rightarrow> Inl e
                             | Inr bar \<Rightarrow> Inr [bar])
                       else Inr []) of
               Inl e \<Rightarrow> Inl e
             | Inr bar \<Rightarrow>
                 Inr (Elem ''div'' [cls ''min-h-screen bg-background'']
                        (Elem ''div'' [cls ''space-y-0''] sections # bar))))"

section \<open>Reading a rendered tree\<close>

text \<open>
  What the properties below observe of an output tree: the ids of its \<^verbatim>\<open><section>\<close>
  elements and its text, both in document order (parent before children, children left
  to right), the direct children of a node, and its \<^verbatim>\<open>className\<close>.
\<close>

fun section_ids :: "'cb node \<Rightarrow> string list" where
  "section_ids (Text _) = []"
| "section_ids (Elem tag props kids) =
     (if tag = ''section''
      then (case map_of props ''id'' of Some (Str i) \<Rightarrow> [i] | _ \<Rightarrow> [])
      else [])
     @ concat (map section_ids kids)"

fun texts :: "'cb node \<Rightarrow> string list" where
  "texts (Text s) = [s]"
| "texts (Elem _ _ kids) = concat (map texts kids)"

fun child_nodes :: "'cb node \<Rightarrow> 'cb node list" where
  "child_nodes (Text _) = []"
| "child_nodes (Elem _ _ kids) = kids"

fun class_of :: "'cb node \<Rightarrow> string option" where
  "class_of (Text _) = None"
| "class_of (Elem _ props _) =
     (case map_of props ''className'' of Some (Str c) \<Rightarrow> Some c | _ \<Rightarrow> None)"

text \<open>
  The buttons of the action bar of a rendered layout: the children of the fixed
  container that \<^verbatim>\<open>ActionBar\<close> renders directly under the root.
\<close>

definition action_bar_buttons :: "'cb node \<Rightarrow> 'cb node list" where
  "action_bar_buttons out =
     concat (map child_nodes
       (filter (\<lambda>n. class_of n = Some ''fixed bottom-6 right-6 flex gap-2 flex-col items-end'')
          (child_nodes out)))"

section \<open>Reading a configuration\<close>

text \<open>The ids of a section and of its descendants in document order.\<close>

fun document_order :: "layoutSection \<Rightarrow> string list" where
  "document_order (LayoutSection sid type title subtitle content layout columns spacing visibility children) =
     sid # (case children of None \<Rightarrow> [] | Some cs \<Rightarrow> concat (map document_order cs))"

text \<open>A section without \<^verbatim>\<open>content\<close>, or whose \<^verbatim>\<open>content\<close> has no \<^verbatim>\<open>items\<close>.\<close>

definition items_absent :: "layoutSection \<Rightarrow> bool" where
  "items_absent s = (case ls_content s of None \<Rightarrow> True | Some c \<Rightarrow> sc_items c = None)"

text \<open>The nine \<^verbatim>\<open>case\<close> labels of the switch in \<^verbatim>\<open>renderSectionByType\<close>, in source order.\<close>

definition case_labels :: "string list" where
  "case_labels =
     [''header'', ''hero'', ''cards'', ''list'', ''timeline'', ''calendar'', ''map'',
      ''alerts'', ''recommendations'']"

text \<open>The same section tree with every \<^verbatim>\<open>visibility\<close> field removed.\<close>

fun clear_visibility :: "layoutSection \<Rightarrow> layoutSection" where
  "clear_visibility (LayoutSection sid type title subtitle content layout columns spacing visibility children) =
     LayoutSection sid type title subtitle content layout columns spacing None
       (case children of None \<Rightarrow> None | Some cs \<Rightarrow> Some (map clear_visibility cs))"

text \<open>
  The visibility check in the words of the specification (section 4.3), for a caller's
  authentication state and predicate over \<^verbatim>\<open>customRule\<close>; the sources have no such
  function. A section without a rule, or with a condition outside the four named ones,
  counts as visible.
\<close>

definition spec_visibility_check :: "bool \<Rightarrow> (string option \<Rightarrow> bool) \<Rightarrow> layoutSection \<Rightarrow> bool" where
  "spec_visibility_check authenticated customPredicate s =
     (case ls_visibility s of
        None \<Rightarrow> True
      | Some v \<Rightarrow>
          if vr_condition v = ''always'' then True
          else if vr_condition v = ''authenticated'' then authenticated
          else if vr_condition v = ''anonymous'' then \<not> authenticated
          else if vr_condition v = ''custom'' then customPredicate (vr_customRule v)
          else True)"

section \<open>Sample inputs\<close>

text \<open>
  Small configurations on which the properties below are instantiated: a section with
  nothing but an id, a type and children; a section behind a visibility rule; an action
  at a position; and a configuration with the header fields of the example of the
  specification.
\<close>

definition sample_section :: "string \<Rightarrow> string \<Rightarrow> layoutSection list option \<Rightarrow> layoutSection" where
  "sample_section sid type children =
     LayoutSection sid type None None None None None None None children"

definition gated_section :: "string \<Rightarrow> string \<Rightarrow> layoutSection list option \<Rightarrow> layoutSection" where
  "gated_section sid condition children =
     LayoutSection sid ''map'' None None None None None None
       (Some \<lparr>vr_condition = condition, vr_customRule = None\<rparr>) children"

definition sample_action :: "string \<Rightarrow> string \<Rightarrow> layoutAction" where
  "sample_action aid position =
     \<lparr>la_id = aid, la_label = aid, la_icon = None, la_type = ''secondary'', la_action = aid,
      la_payload = None, la_position = Some position\<rparr>"

definition sample_config :: "layoutSection list \<Rightarrow> layoutAction list option \<Rightarrow> layoutConfig" where
  "sample_config sections actions =
     \<lparr>lc_mode = ''itinerary'', lc_title = ''Paris Trip'', lc_description = None,
      lc_sections = sections, lc_actions = actions, lc_metadata = None\<rparr>"

text \<open>The example scenario of the specification: one card and one floating action.\<close>

definition eiffel_tower :: contentItem where
  "eiffel_tower =
     \<lparr>ci_id = ''i1'', ci_title = ''Eiffel Tower'', ci_subtitle = None, ci_description = None,
      ci_image = None, ci_icon = None, ci_badge = None, ci_metadata = None, ci_actions = None\<rparr>"

definition paris_trip :: layoutConfig where
  "paris_trip =
     \<lparr>lc_mode = ''itinerary'', lc_title = ''Paris Trip'', lc_description = None,
      lc_sections =
        [LayoutSection ''s1'' ''cards'' None None
           (Some \<lparr>sc_items = Some [eiffel_tower], sc_template = None, sc_dataSource = None\<rparr>)
           None None None None None],
      lc_actions =
        Some [\<lparr>la_id = ''save'', la_label = ''Save'', la_icon = None, la_type = ''primary'',
               la_action = ''save_trip'', la_payload = None, la_position = Some ''floating''\<rparr>],
      lc_metadata = None\<rparr>"

section \<open>Auxiliary facts\<close>

lemma sequence_sum_all_Inr:
  "(\<And>x. x \<in> set xs \<Longrightarrow> \<exists>y. f x = Inr y) \<Longrightarrow> \<exists>ys. sequence_sum (map f xs) = Inr ys"
proof (induction xs)
  case Nil
  show ?case by simp
next
  case (Cons x xs)
  obtain y where y: "f x = Inr y"
    using Cons.prems by auto
  obtain ys where ys: "sequence_sum (map f xs) = Inr ys"
    using Cons.IH Cons.prems by auto
  show ?case
    by (simp add: y ys)
qed

lemma sequence_sum_Inr_D: "sequence_sum rs = Inr ys \<Longrightarrow> rs = map Inr ys"
proof (induction rs arbitrary: ys)
  case Nil
  then show ?case by simp
next
  case (Cons r rs)
  show ?case
  proof (cases r)
    case (Inl e)
    with Cons.prems show ?thesis by simp
  next
    case rx: (Inr x)
    show ?thesis
    proof (cases "sequence_sum rs")
      case (Inl e)
      with Cons.prems rx show ?thesis by simp
    next
      case (Inr xs)
      with Cons.prems rx Cons.IH[OF Inr] show ?thesis by auto
    qed
  qed
qed

lemma map_Inr_pointwise:
  "map Inr kids = map f cs \<Longrightarrow> (\<And>c k. c \<in> set cs \<Longrightarrow> f c = Inr k \<Longrightarrow> g k = h c)
     \<Longrightarrow> map g kids = map h cs"
proof (induction cs arbitrary: kids)
  case Nil
  then show ?case by simp
next
  case (Cons c cs)
  then obtain k ks where kids: "kids = k # ks"
    by (cases kids) auto
  with Cons.prems(1) have k: "f c = Inr k" and ks: "map Inr ks = map f cs"
    by auto
  have "g k = h c"
    using Cons.prems(2)[of c k] k by simp
  moreover have "map g ks = map h cs"
    using Cons.IH[OF ks] Cons.prems(2) by simp
  ultimately show ?case
    using kids by simp
qed

lemma items_absent_content_items: "items_absent s \<Longrightarrow> content_items (ls_content s) = []"
  by (auto simp: items_absent_def content_items_def split: option.splits)

lemma num_to_string_3: "num_to_string 3 = ''3''"
  by (simp add: num_to_string_def digits.simps)

text \<open>
  The exception that the dispatcher's \<^verbatim>\<open>|| []\<close> keeps away: a grid, a list or an action
  bar handed an \<^verbatim>\<open>undefined\<close> array raises.
\<close>

lemma undefined_items_raise:
  "CardGrid None columns spacing cb = Inl TypeError"
  "ListSection None spacing cb = Inl TypeError"
  "ActionBar None cb = Inl TypeError"
  by (simp_all add: CardGrid_def ListSection_def ActionBar_def)

section \<open>The shape of a rendered section\<close>

lemma renderSectionByType_total: "\<exists>n. renderSectionByType s cb d t = Inr n"
  by (simp add: renderSectionByType_def CardGrid_def ListSection_def RecommendationsSection_def)

lemma SectionRenderer_total: "\<exists>n. SectionRenderer s cb d = Inr n"
proof (induction s)
  case (LayoutSection sid t ti su co la cl sp vi ch)
  let ?s = "LayoutSection sid t ti su co la cl sp vi ch"
  obtain body where body: "renderSectionByType ?s cb d t = Inr body"
    using renderSectionByType_total by blast
  have "\<exists>nested. (case ch of
                     None \<Rightarrow> Inr []
                   | Some cs \<Rightarrow>
                       if length cs > 0
                       then (case sequence_sum (map (\<lambda>child. SectionRenderer child cb d) cs) of
                               Inl e \<Rightarrow> Inl e
                             | Inr kids \<Rightarrow> Inr [Elem ''div'' [cls ''mt-6 space-y-6''] kids])
                       else Inr []) = Inr nested"
  proof (cases ch)
    case None
    then show ?thesis by simp
  next
    case (Some cs)
    have "\<exists>ys. sequence_sum (map (\<lambda>child. SectionRenderer child cb d) cs) = Inr ys"
      by (rule sequence_sum_all_Inr) (use LayoutSection.IH Some in auto)
    with Some show ?thesis by auto
  qed
  then obtain nested where nested: "(case ch of
                     None \<Rightarrow> Inr []
                   | Some cs \<Rightarrow>
                       if length cs > 0
                       then (case sequence_sum (map (\<lambda>child. SectionRenderer child cb d) cs) of
                               Inl e \<Rightarrow> Inl e
                             | Inr kids \<Rightarrow> Inr [Elem ''div'' [cls ''mt-6 space-y-6''] kids])
                       else Inr []) = Inr nested"
    by blast
  show ?case
    unfolding SectionRenderer.simps Let_def body nested by simp
qed

lemma SectionRenderer_shape:
  "\<exists>kids body.
     map Inr kids = map (\<lambda>child. SectionRenderer child cb d)
                      (case ls_children s of None \<Rightarrow> [] | Some cs \<Rightarrow> cs)
     \<and> renderSectionByType s cb d (ls_type s) = Inr body
     \<and> SectionRenderer s cb d =
         Inr (Elem ''section''
                [(''id'', Str (ls_id s)),
                 cls (containerClass (ls_spacing s) @ '' ''
                      @ (if ls_layout s = Some ''map'' then '''' else ''container mx-auto px-4''))]
                ((if truthy_str (ls_title s) \<and> ls_type s \<noteq> ''header'' \<and> ls_type s \<noteq> ''hero''
                  then [title_heading (the (ls_title s))] else [])
                 @ [body]
                 @ (if length kids > 0 then [Elem ''div'' [cls ''mt-6 space-y-6''] kids] else [])))"
proof (cases s)
  case (LayoutSection sid t ti su co la cl sp vi ch)
  let ?cs = "case ch of None \<Rightarrow> [] | Some cs \<Rightarrow> cs"
  obtain body where body: "renderSectionByType s cb d t = Inr body"
    using renderSectionByType_total by blast
  obtain kids where kids: "sequence_sum (map (\<lambda>child. SectionRenderer child cb d) ?cs) = Inr kids"
    using sequence_sum_all_Inr[of ?cs "\<lambda>child. SectionRenderer child cb d"] SectionRenderer_total
    by blast
  have pointwise: "map Inr kids = map (\<lambda>child. SectionRenderer child cb d) ?cs"
    using sequence_sum_Inr_D[OF kids] by simp
  then have len: "length kids = length ?cs"
    by (metis length_map)
  have nested: "(case ch of
                   None \<Rightarrow> Inr []
                 | Some cs \<Rightarrow>
                     if length cs > 0
                     then (case sequence_sum (map (\<lambda>child. SectionRenderer child cb d) cs) of
                             Inl e \<Rightarrow> Inl e
                           | Inr kids \<Rightarrow> Inr [Elem ''div'' [cls ''mt-6 space-y-6''] kids])
                     else Inr [])
                = Inr (if length kids > 0 then [Elem ''div'' [cls ''mt-6 space-y-6''] kids] else [])"
    using kids len by (cases ch) auto
  have "SectionRenderer s cb d =
         Inr (Elem ''section''
                [(''id'', Str sid),
                 cls (containerClass sp @ '' ''
                      @ (if la = Some ''map'' then '''' else ''container mx-auto px-4''))]
                ((if truthy_str ti \<and> t \<noteq> ''header'' \<and> t \<noteq> ''hero''
                  then [title_heading (the ti)] else [])
                 @ [body]
                 @ (if length kids > 0 then [Elem ''div'' [cls ''mt-6 space-y-6''] kids] else [])))"
    using body unfolding LayoutSection SectionRenderer.simps Let_def nested by simp
  then show ?thesis
    using pointwise body LayoutSection by auto
qed

lemma section_ids_CardGrid_card: "section_ids (CardGrid_card cb item) = []"
  by (auto simp: CardGrid_card_def CardGrid_button_def when_str_def cls_def split: option.splits)

lemma section_ids_ListSection_row: "section_ids (ListSection_row sp cb item) = []"
  by (auto simp: ListSection_row_def ListSection_button_def when_str_def cls_def split: option.splits)

lemma section_ids_dispatched:
  "renderSectionByType s cb d t = Inr body \<Longrightarrow> section_ids body = []"
  by (auto simp: renderSectionByType_def CardGrid_def ListSection_def RecommendationsSection_def
      placeholder_def when_str_def cls_def section_ids_CardGrid_card section_ids_ListSection_row
      split: if_splits)

lemma dispatched_not_heading:
  "renderSectionByType s cb d t = Inr body \<Longrightarrow> body \<noteq> title_heading x"
  by (auto simp: renderSectionByType_def CardGrid_def ListSection_def RecommendationsSection_def
      placeholder_def title_heading_def split: if_splits)

lemma SectionRenderer_section_ids:
  "SectionRenderer s cb d = Inr out \<Longrightarrow> section_ids out = document_order s"
proof (induction s arbitrary: out)
  case (LayoutSection sid t ti su co la cl sp vi ch)
  let ?s = "LayoutSection sid t ti su co la cl sp vi ch"
  let ?cs = "case ch of None \<Rightarrow> [] | Some cs \<Rightarrow> cs"
  obtain kids body where
    kids: "map Inr kids = map (\<lambda>child. SectionRenderer child cb d) ?cs" and
    body: "renderSectionByType ?s cb d t = Inr body" and
    out: "SectionRenderer ?s cb d =
         Inr (Elem ''section''
                [(''id'', Str sid),
                 cls (containerClass sp @ '' ''
                      @ (if la = Some ''map'' then '''' else ''container mx-auto px-4''))]
                ((if truthy_str ti \<and> t \<noteq> ''header'' \<and> t \<noteq> ''hero''
                  then [title_heading (the ti)] else [])
                 @ [body]
                 @ (if length kids > 0 then [Elem ''div'' [cls ''mt-6 space-y-6''] kids] else [])))"
    using SectionRenderer_shape[of cb d ?s] by auto
  have nested: "map section_ids kids = map document_order ?cs"
  proof (rule map_Inr_pointwise[OF kids])
    fix c k
    assume "c \<in> set ?cs" and "SectionRenderer c cb d = Inr k"
    then show "section_ids k = document_order c"
      using LayoutSection.IH by (cases ch) auto
  qed
  have len: "length kids = length ?cs"
    using kids by (metis length_map)
  have "section_ids out = sid # concat (map document_order ?cs)"
    using LayoutSection.prems out nested len section_ids_dispatched[OF body]
    by (auto simp: title_heading_def cls_def)
  then show ?case
    by (cases ch) simp_all
qed

lemma sections_render:
  "\<exists>secs. sequence_sum (map (\<lambda>section. SectionRenderer section cb d) ss) = Inr secs
          \<and> map Inr secs = map (\<lambda>section. SectionRenderer section cb d) ss
          \<and> concat (map section_ids secs) = concat (map document_order ss)"
proof -
  obtain secs where secs: "sequence_sum (map (\<lambda>section. SectionRenderer section cb d) ss) = Inr secs"
    using sequence_sum_all_Inr[of ss "\<lambda>section. SectionRenderer section cb d"] SectionRenderer_total
    by blast
  have pointwise: "map Inr secs = map (\<lambda>section. SectionRenderer section cb d) ss"
    using sequence_sum_Inr_D[OF secs] by simp
  have "map section_ids secs = map document_order ss"
    by (rule map_Inr_pointwise[OF pointwise]) (rule SectionRenderer_section_ids)
  then show ?thesis
    using secs pointwise by simp
qed

lemma renderSectionByType_clear_visibility:
  "renderSectionByType (clear_visibility s) cb d t = renderSectionByType s cb d t"
  by (cases s) (simp add: renderSectionByType_def)

lemma SectionRenderer_clear_visibility:
  "SectionRenderer (clear_visibility s) cb d = SectionRenderer s cb d"
proof (induction s)
  case (LayoutSection sid t ti su co la cl sp vi ch)
  have disp: "renderSectionByType (LayoutSection sid t ti su co la cl sp None
                (case ch of None \<Rightarrow> None | Some cs \<Rightarrow> Some (map clear_visibility cs))) cb d t
              = renderSectionByType (LayoutSection sid t ti su co la cl sp vi ch) cb d t"
    using renderSectionByType_clear_visibility[of "LayoutSection sid t ti su co la cl sp vi ch" cb d t]
    by simp
  have kids: "(case (case ch of None \<Rightarrow> None | Some cs \<Rightarrow> Some (map clear_visibility cs)) of
                 None \<Rightarrow> Inr []
               | Some cs \<Rightarrow>
                   if length cs > 0
                   then (case sequence_sum (map (\<lambda>child. SectionRenderer child cb d) cs) of
                           Inl e \<Rightarrow> Inl e
                         | Inr kids \<Rightarrow> Inr [Elem ''div'' [cls ''mt-6 space-y-6''] kids])
                   else Inr [])
            = (case ch of
                 None \<Rightarrow> Inr []
               | Some cs \<Rightarrow>
                   if length cs > 0
                   then (case sequence_sum (map (\<lambda>child. SectionRenderer child cb d) cs) of
                           Inl e \<Rightarrow> Inl e
                         | Inr kids \<Rightarrow> Inr [Elem ''div'' [cls ''mt-6 space-y-6''] kids])
                   else Inr [])"
  proof (cases ch)
    case None
    then show ?thesis by simp
  next
    case (Some cs)
    have same: "map (\<lambda>child. SectionRenderer child cb d) (map clear_visibility cs)
          = map (\<lambda>child. SectionRenderer child cb d) cs"
      using LayoutSection.IH Some by auto
    show ?thesis
      unfolding Some by (simp only: option.case length_map same)
  qed
  show ?case
    unfolding clear_visibility.simps SectionRenderer.simps Let_def disp kids by (rule refl)
qed

section \<open>The example scenario\<close>

text \<open>
  The configuration of the specification's example renders as one card titled
  \<^verbatim>\<open>Eiffel Tower\<close> inside a cards section and one floating \<^verbatim>\<open>Save\<close> button, whose
  click calls the handler with the action's id and payload.
\<close>

lemma example_scenario:
  "LayoutRenderer paris_trip (Some h) None (Some False) None =
     Inr (Elem ''div'' [(''className'', Str ''min-h-screen bg-background'')]
       [Elem ''div'' [(''className'', Str ''space-y-0'')]
          [Elem ''section'' [(''id'', Str ''s1''), (''className'', Str ''py-6 container mx-auto px-4'')]
             [Elem ''div'' [(''className'', Str ''grid grid-cols-1 md:grid-cols-2 lg:grid-cols-3 gap-4'')]
                [Elem ''Card'' [(''key'', Str ''i1''), (''className'', Str ''hover:shadow-lg transition-shadow'')]
                   [Elem ''CardHeader'' []
                      [Elem ''div'' [(''className'', Str ''flex items-start justify-between gap-2'')]
                         [Elem ''div'' [(''className'', Str ''flex-1'')]
                            [Elem ''CardTitle'' [] [Text ''Eiffel Tower'']]]]]]]],
        Elem ''div'' [(''className'', Str ''fixed bottom-6 right-6 flex gap-2 flex-col items-end'')]
          [Elem ''Button''
             [(''key'', Str ''save''), (''variant'', Str ''default''),
              (''onClick'', OnClick (Some h) ''save'' None), (''className'', Str ''shadow-lg'')]
             [Text ''Save'']]])"
  by (simp add: paris_trip_def eiffel_tower_def LayoutRenderer_def truthy_str_def Let_def
      renderSectionByType_def CardGrid_def CardGrid_card_def content_items_def default_param_def
      or_else_num_def or_else_str_def gridClass_def num_to_string_3 when_str_def containerClass_def
      ActionBar_def ActionBar_button_def cls_def)

section \<open>Properties of the section dispatcher\<close>

text \<open>
  Claim C1 (type-dispatch totality), amended to what the switch does. For each of the
  nine types that are \<^verbatim>\<open>case\<close> labels (header, hero, cards, list, timeline, calendar, map,
  alerts, recommendations) the dispatcher selects one dedicated sub-renderer, with the
  props shown, and its result is not the placeholder. The four other members of
  \<^verbatim>\<open>SectionType\<close> (form, gallery, stats, footer) have no case and no sub-renderer: for
  them the dispatcher takes the \<^verbatim>\<open>default\<close> branch and returns the placeholder.
\<close>

theorem dispatch_case_labels:
  "renderSectionByType s cb d ''header'' =
       Inr (Elem ''HeaderSection''
              [(''title'', opt Str (ls_title s)), (''items'', Items []),
               (''onAction'', opt Callback cb)] [])
   \<and> renderSectionByType s cb d ''hero'' =
       Inr (Elem ''HeroSection''
              [(''title'', opt Str (ls_title s)), (''items'', Items (content_items (ls_content s))),
               (''onAction'', opt Callback cb)] [])
   \<and> renderSectionByType s cb d ''cards'' =
       CardGrid (Some (content_items (ls_content s))) (Some (or_else_num (ls_columns s) 3))
         (Some (or_else_str (ls_spacing s) ''normal'')) cb
   \<and> renderSectionByType s cb d ''list'' =
       ListSection (Some (content_items (ls_content s))) (Some (or_else_str (ls_spacing s) ''normal'')) cb
   \<and> renderSectionByType s cb d ''timeline'' =
       Inr (Elem ''TimelineSection''
              [(''items'', Items (content_items (ls_content s))), (''onAction'', opt Callback cb)] [])
   \<and> renderSectionByType s cb d ''calendar'' =
       Inr (Elem ''CalendarSection''
              [(''title'', opt Str (ls_title s)), (''data'', opt Data d),
               (''onAction'', opt Callback cb)] [])
   \<and> renderSectionByType s cb d ''map'' =
       Inr (Elem ''MapSection''
              [(''title'', opt Str (ls_title s)), (''data'', opt Data d),
               (''onAction'', opt Callback cb)] [])
   \<and> renderSectionByType s cb d ''alerts'' =
       Inr (Elem ''AlertsSection''
              [(''items'', Items (content_items (ls_content s))), (''onAction'', opt Callback cb)] [])
   \<and> renderSectionByType s cb d ''recommendations'' =
       RecommendationsSection None (Some (content_items (ls_content s))) None cb
   \<and> (t \<in> set case_labels \<longrightarrow> renderSectionByType s cb d t \<noteq> Inr (placeholder u))
   \<and> (t' \<in> set SectionType \<and> t' \<notin> set case_labels \<longrightarrow>
        renderSectionByType s cb d t' = Inr (placeholder t'))
   \<and> filter (\<lambda>t. t \<notin> set case_labels) SectionType = [''form'', ''gallery'', ''stats'', ''footer'']"
proof -
  have not_placeholder: "renderSectionByType s cb d t \<noteq> Inr (placeholder u)" if "t \<in> set case_labels"
    using that
    by (auto simp: case_labels_def renderSectionByType_def CardGrid_def ListSection_def
        RecommendationsSection_def placeholder_def gridClass_def cls_def)
  have fallback: "renderSectionByType s cb d t' = Inr (placeholder t')"
    if "t' \<in> set SectionType \<and> t' \<notin> set case_labels"
    using that by (auto simp: SectionType_def case_labels_def renderSectionByType_def)
  have rest: "filter (\<lambda>t. t \<notin> set case_labels) SectionType = [''form'', ''gallery'', ''stats'', ''footer'']"
    by (simp add: SectionType_def case_labels_def)
  show ?thesis
    using not_placeholder fallback rest by (simp add: renderSectionByType_def)
qed

theorem dispatch_case_labels_witness:
  "''cards'' \<in> set case_labels
   \<and> renderSectionByType (sample_section ''s1'' ''cards'' None) (None :: unit option) None ''cards''
       \<noteq> Inr (placeholder ''cards'')
   \<and> ''footer'' \<in> set SectionType \<and> ''footer'' \<notin> set case_labels
   \<and> renderSectionByType (sample_section ''s1'' ''cards'' None) (None :: unit option) None ''footer''
       = Inr (placeholder ''footer'')"
proof -
  have h1: "''cards'' \<in> set case_labels"
    and h2: "''footer'' \<in> set SectionType \<and> ''footer'' \<notin> set case_labels"
    by (simp_all add: case_labels_def SectionType_def)
  note inst = dispatch_case_labels[of "sample_section ''s1'' ''cards'' None" "None :: unit option" None
        "''cards''" "''cards''" "''footer''"]
  have "renderSectionByType (sample_section ''s1'' ''cards'' None) (None :: unit option) None ''cards''
          \<noteq> Inr (placeholder ''cards'')"
    using h1 inst by blast
  moreover have "renderSectionByType (sample_section ''s1'' ''cards'' None) (None :: unit option) None
          ''footer'' = Inr (placeholder ''footer'')"
    using h2 inst by blast
  ultimately show ?thesis
    using h1 h2 by blast
qed

text \<open>
  Claim C1 as stated fails at \<^verbatim>\<open>form\<close>: it is a member of \<^verbatim>\<open>SectionType\<close>, and the
  dispatcher renders the placeholder for it.
\<close>

theorem dispatch_totality_counterexample:
  "''form'' \<in> set SectionType
   \<and> renderSectionByType (LayoutSection ''s1'' ''form'' None None None None None None None None)
        (None :: unit option) None ''form''
      = Inr (Elem ''div'' [(''className'', Str ''p-4 bg-muted rounded-lg'')]
               [Elem ''p'' [(''className'', Str ''text-muted-foreground'')]
                  [Text ''Unknown section type: '', Text ''form'']])"
  by (simp add: SectionType_def renderSectionByType_def placeholder_def cls_def)

text \<open>
  Claim C5 (unknown-type fallback). For every string \<open>t\<close> outside the \<^verbatim>\<open>SectionType\<close>
  enumeration, the dispatcher returns normally, with the placeholder of the \<^verbatim>\<open>default\<close>
  branch; the text of the placeholder contains \<open>t\<close> literally; and a section whose type
  is \<open>t\<close> renders (no exception) with that placeholder among the children of its
  \<^verbatim>\<open><section>\<close> element.
\<close>

theorem unknown_type_placeholder:
  assumes "t \<notin> set SectionType"
  shows "renderSectionByType s (cb :: 'cb option) d t = Inr (placeholder t)
       \<and> t \<in> set (texts (placeholder t :: 'cb node))
       \<and> (ls_type s = t \<longrightarrow>
            (\<exists>out. SectionRenderer s cb d = Inr out \<and> placeholder t \<in> set (child_nodes out)))"
proof -
  have disp: "renderSectionByType s cb d t = Inr (placeholder t)"
    using assms by (simp add: renderSectionByType_def SectionType_def)
  have literal: "t \<in> set (texts (placeholder t :: 'cb node))"
    by (simp add: placeholder_def)
  have sec: "\<exists>out. SectionRenderer s cb d = Inr out \<and> placeholder t \<in> set (child_nodes out)"
    if t: "ls_type s = t"
    using SectionRenderer_shape[of cb d s] disp t by auto
  show ?thesis
    using disp literal sec by blast
qed

theorem unknown_type_placeholder_witness:
  "''banner'' \<notin> set SectionType
   \<and> renderSectionByType (sample_section ''s1'' ''banner'' None) (None :: unit option) None ''banner''
      = Inr (Elem ''div'' [(''className'', Str ''p-4 bg-muted rounded-lg'')]
               [Elem ''p'' [(''className'', Str ''text-muted-foreground'')]
                  [Text ''Unknown section type: '', Text ''banner'']])
   \<and> ls_type (sample_section ''s1'' ''banner'' None) = ''banner''
   \<and> map_sum id child_nodes (SectionRenderer (sample_section ''s1'' ''banner'' None) (None :: unit option) None)
      = Inr [placeholder ''banner'']"
proof -
  let ?s = "sample_section ''s1'' ''banner'' None"
  have h: "''banner'' \<notin> set SectionType"
    by (simp add: SectionType_def)
  have ty: "ls_type ?s = ''banner''"
    by (simp add: sample_section_def)
  note inst = unknown_type_placeholder[OF h, of ?s "None :: unit option" None]
  have disp: "renderSectionByType ?s (None :: unit option) None ''banner'' = Inr (placeholder ''banner'')"
    using inst by blast
  obtain out where out: "SectionRenderer ?s (None :: unit option) None = Inr out"
    using inst ty by blast
  have "child_nodes out = [placeholder ''banner'']"
    using out disp
    by (auto simp: sample_section_def Let_def truthy_str_def)
  then show ?thesis
    using h ty disp out by (simp add: placeholder_def cls_def)
qed

text \<open>
  Claim C7 (empty-items safety). For a section without \<^verbatim>\<open>content\<close>, or whose content
  has no \<^verbatim>\<open>items\<close>, the dispatcher returns normally for the types \<^verbatim>\<open>cards\<close>,
  \<^verbatim>\<open>list\<close> and \<^verbatim>\<open>timeline\<close>: the card grid and the list are rendered with no item
  under their container, and the timeline component receives the empty sequence as its
  \<^verbatim>\<open>items\<close> prop.
\<close>

theorem empty_items_safe:
  assumes "items_absent s"
  shows "renderSectionByType s cb d ''cards'' =
           Inr (Elem ''div''
                  [cls (gridClass (or_else_num (ls_columns s) 3) (or_else_str (ls_spacing s) ''normal''))]
                  [])
       \<and> renderSectionByType s cb d ''list'' = Inr (Elem ''div'' [cls ''space-y-2''] [])
       \<and> renderSectionByType s cb d ''timeline'' =
           Inr (Elem ''TimelineSection'' [(''items'', Items []), (''onAction'', opt Callback cb)] [])"
  using items_absent_content_items[OF assms]
  by (simp add: renderSectionByType_def CardGrid_def ListSection_def default_param_def)

theorem empty_items_safe_witness:
  "items_absent (sample_section ''s1'' ''cards'' None)
   \<and> renderSectionByType (sample_section ''s1'' ''cards'' None) (None :: unit option) None ''cards''
      = Inr (Elem ''div''
               [(''className'', Str ''grid grid-cols-1 md:grid-cols-2 lg:grid-cols-3 gap-4'')] [])
   \<and> renderSectionByType (sample_section ''s1'' ''cards'' None) (None :: unit option) None ''list''
      = Inr (Elem ''div'' [(''className'', Str ''space-y-2'')] [])
   \<and> renderSectionByType (sample_section ''s1'' ''cards'' None) (None :: unit option) None ''timeline''
      = Inr (Elem ''TimelineSection'' [(''items'', Items []), (''onAction'', Undefined)] [])"
proof -
  have h: "items_absent (sample_section ''s1'' ''cards'' None)"
    by (simp add: items_absent_def sample_section_def)
  show ?thesis
    using h empty_items_safe[OF h, of "None :: unit option" None]
    by (simp add: sample_section_def gridClass_def or_else_num_def or_else_str_def num_to_string_3
        cls_def opt_def)
qed

text \<open>
  Claim C10 (falsy columns and spacing). For a \<^verbatim>\<open>cards\<close> section the dispatcher passes
  the column count 3 to the grid whenever \<^verbatim>\<open>columns\<close> is falsy, that is unset or 0, and
  the grid then carries the class \<^verbatim>\<open>lg:grid-cols-3\<close>; whenever \<^verbatim>\<open>spacing\<close> is falsy,
  that is unset or the empty string, the grid and the list receive \<^verbatim>\<open>"normal"\<close>.
\<close>

theorem falsy_defaults:
  "(ls_columns s = None \<or> ls_columns s = Some 0 \<longrightarrow>
      renderSectionByType s cb d ''cards'' =
        CardGrid (Some (content_items (ls_content s))) (Some 3)
          (Some (or_else_str (ls_spacing s) ''normal'')) cb
      \<and> (\<exists>out. renderSectionByType s cb d ''cards'' = Inr out
            \<and> class_of out = Some (''grid grid-cols-1 md:grid-cols-2 lg:grid-cols-3 gap-''
                  @ (if ls_spacing s = Some ''compact'' then ''2''
                     else if ls_spacing s = Some ''spacious'' then ''8'' else ''4''))))
   \<and> (ls_spacing s = None \<or> ls_spacing s = Some '''' \<longrightarrow>
      renderSectionByType s cb d ''cards'' =
        CardGrid (Some (content_items (ls_content s))) (Some (or_else_num (ls_columns s) 3))
          (Some ''normal'') cb
      \<and> renderSectionByType s cb d ''list'' =
        ListSection (Some (content_items (ls_content s))) (Some ''normal'') cb)"
proof -
  have c: "or_else_num (ls_columns s) 3 = 3" if "ls_columns s = None \<or> ls_columns s = Some 0"
    using that by (auto simp: or_else_num_def)
  have sp: "or_else_str (ls_spacing s) ''normal'' = ''normal''"
    if "ls_spacing s = None \<or> ls_spacing s = Some ''''"
    using that by (auto simp: or_else_str_def)
  have g: "or_else_str (ls_spacing s) ''normal'' = ''compact'' \<longleftrightarrow> ls_spacing s = Some ''compact''"
    by (auto simp: or_else_str_def split: option.splits)
  have g2: "or_else_str (ls_spacing s) ''normal'' = ''spacious'' \<longleftrightarrow> ls_spacing s = Some ''spacious''"
    by (auto simp: or_else_str_def split: option.splits)
  show ?thesis
    using c sp g g2
    by (simp add: renderSectionByType_def CardGrid_def default_param_def gridClass_def
        num_to_string_3 cls_def)
qed

theorem falsy_defaults_witness:
  "ls_columns (LayoutSection ''s1'' ''cards'' None None None None (Some 0) (Some '''') None None) = Some 0
   \<and> ls_spacing (LayoutSection ''s1'' ''cards'' None None None None (Some 0) (Some '''') None None) = Some ''''
   \<and> renderSectionByType (LayoutSection ''s1'' ''cards'' None None None None (Some 0) (Some '''') None None)
        (None :: unit option) None ''cards''
      = Inr (Elem ''div''
               [(''className'', Str ''grid grid-cols-1 md:grid-cols-2 lg:grid-cols-3 gap-4'')] [])"
  using falsy_defaults[of "LayoutSection ''s1'' ''cards'' None None None None (Some 0) (Some '''') None None"
      "None :: unit option" None]
  by (simp add: CardGrid_def default_param_def gridClass_def num_to_string_3 cls_def
      content_items_def or_else_str_def)

text \<open>
  Where the dispatcher puts a section's title. A section renders, with the dispatched
  content among the children of its \<^verbatim>\<open><section>\<close> element. When the section has a
  title (a non-empty string; the empty string is falsy) and its type is neither
  \<^verbatim>\<open>header\<close> nor \<^verbatim>\<open>hero\<close>, the first child is the heading with that title, the
  dispatched content follows it directly, and the heading occurs once among the children.
  For \<^verbatim>\<open>header\<close> and \<^verbatim>\<open>hero\<close> the dispatcher renders no heading: the dispatched
  content comes first, and it is the sub-renderer's element, which receives the title as
  its \<^verbatim>\<open>title\<close> prop. Without a title there is no heading either.
\<close>

lemma heading_placement:
  "\<exists>out body rest.
      SectionRenderer s cb d = Inr out
    \<and> renderSectionByType s cb d (ls_type s) = Inr body
    \<and> (ls_title s = Some t \<and> t \<noteq> [] \<and> ls_type s \<noteq> ''header'' \<and> ls_type s \<noteq> ''hero'' \<longrightarrow>
          child_nodes out = title_heading t # body # rest
        \<and> count_list (child_nodes out) (title_heading t) = 1)
    \<and> (ls_type s = ''header'' \<or> ls_type s = ''hero'' \<longrightarrow>
          child_nodes out = body # rest
        \<and> (\<forall>x. title_heading x \<notin> set (child_nodes out))
        \<and> (\<exists>props. body = Elem (if ls_type s = ''header'' then ''HeaderSection'' else ''HeroSection'')
                                props []
                    \<and> map_of props ''title'' = Some (opt Str (ls_title s))))
    \<and> (ls_title s = None \<or> ls_title s = Some '''' \<longrightarrow>
          child_nodes out = body # rest
        \<and> (\<forall>x. title_heading x \<notin> set (child_nodes out)))"
proof -
  obtain kids body where
    kids: "map Inr kids = map (\<lambda>child. SectionRenderer child cb d)
                            (case ls_children s of None \<Rightarrow> [] | Some cs \<Rightarrow> cs)" and
    body: "renderSectionByType s cb d (ls_type s) = Inr body" and
    out: "SectionRenderer s cb d =
         Inr (Elem ''section''
                [(''id'', Str (ls_id s)),
                 cls (containerClass (ls_spacing s) @ '' ''
                      @ (if ls_layout s = Some ''map'' then '''' else ''container mx-auto px-4''))]
                ((if truthy_str (ls_title s) \<and> ls_type s \<noteq> ''header'' \<and> ls_type s \<noteq> ''hero''
                  then [title_heading (the (ls_title s))] else [])
                 @ [body]
                 @ (if length kids > 0 then [Elem ''div'' [cls ''mt-6 space-y-6''] kids] else [])))"
    using SectionRenderer_shape[of cb d s] by auto
  let ?rest = "if length kids > 0 then [Elem ''div'' [cls ''mt-6 space-y-6''] kids] else []"
  have nb: "body \<noteq> title_heading x" for x
    using dispatched_not_heading[OF body] .
  have nr: "title_heading x \<notin> set ?rest" for x
    by (simp add: title_heading_def)
  have props: "\<exists>props. body = Elem (if ls_type s = ''header'' then ''HeaderSection'' else ''HeroSection'')
                                props []
                    \<and> map_of props ''title'' = Some (opt Str (ls_title s))"
    if "ls_type s = ''header'' \<or> ls_type s = ''hero''"
    using that body by (auto simp: renderSectionByType_def)
  have titled: "child_nodes (Elem ''section''
                [(''id'', Str (ls_id s)),
                 cls (containerClass (ls_spacing s) @ '' ''
                      @ (if ls_layout s = Some ''map'' then '''' else ''container mx-auto px-4''))]
                ((if truthy_str (ls_title s) \<and> ls_type s \<noteq> ''header'' \<and> ls_type s \<noteq> ''hero''
                  then [title_heading (the (ls_title s))] else [])
                 @ [body] @ ?rest)) =
        (if truthy_str (ls_title s) \<and> ls_type s \<noteq> ''header'' \<and> ls_type s \<noteq> ''hero''
         then title_heading (the (ls_title s)) # body # ?rest else body # ?rest)"
    by simp
  show ?thesis
    apply (rule exI[of _ "Elem ''section''
                [(''id'', Str (ls_id s)),
                 cls (containerClass (ls_spacing s) @ '' ''
                      @ (if ls_layout s = Some ''map'' then '''' else ''container mx-auto px-4''))]
                ((if truthy_str (ls_title s) \<and> ls_type s \<noteq> ''header'' \<and> ls_type s \<noteq> ''hero''
                  then [title_heading (the (ls_title s))] else [])
                 @ [body] @ ?rest)"])
    apply (rule exI[of _ body])
    apply (rule exI[of _ ?rest])
    unfolding titled
    using out body nb nr props
    by (auto simp: truthy_str_def)
qed

text \<open>
  The \<^verbatim>\<open>calendar\<close> and \<^verbatim>\<open>map\<close> branches pass \<^verbatim>\<open>title={section.title}\<close> to their
  sub-renderer as the \<^verbatim>\<open>header\<close> and \<^verbatim>\<open>hero\<close> branches do, but the heading is
  suppressed for \<^verbatim>\<open>header\<close> and \<^verbatim>\<open>hero\<close> only: a titled calendar or map section gets
  the heading and, directly below it, the sub-renderer's element holding the same title.
\<close>

lemma calendar_map_title_passed:
  assumes "ls_title s = Some t" and "t \<noteq> []"
    and "ls_type s = ''calendar'' \<or> ls_type s = ''map''"
  shows "\<exists>out rest.
           SectionRenderer s cb d = Inr out
         \<and> child_nodes out =
             title_heading t
             # Elem (if ls_type s = ''calendar'' then ''CalendarSection'' else ''MapSection'')
                 [(''title'', Str t), (''data'', opt Data d), (''onAction'', opt Callback cb)] []
             # rest"
proof -
  obtain kids body where
    body: "renderSectionByType s cb d (ls_type s) = Inr body" and
    out: "SectionRenderer s cb d =
         Inr (Elem ''section''
                [(''id'', Str (ls_id s)),
                 cls (containerClass (ls_spacing s) @ '' ''
                      @ (if ls_layout s = Some ''map'' then '''' else ''container mx-auto px-4''))]
                ((if truthy_str (ls_title s) \<and> ls_type s \<noteq> ''header'' \<and> ls_type s \<noteq> ''hero''
                  then [title_heading (the (ls_title s))] else [])
                 @ [body]
                 @ (if length kids > 0 then [Elem ''div'' [cls ''mt-6 space-y-6''] kids] else [])))"
    using SectionRenderer_shape[of cb d s] by auto
  have "body = Elem (if ls_type s = ''calendar'' then ''CalendarSection'' else ''MapSection'')
                 [(''title'', Str t), (''data'', opt Data d), (''onAction'', opt Callback cb)] []"
    using body assms by (auto simp: renderSectionByType_def opt_def)
  then show ?thesis
    using out assms by (auto simp: truthy_str_def)
qed


section \<open>Properties of the layout renderer\<close>

text \<open>
  Claim C3 (takeover states). For every configuration: when \<^verbatim>\<open>loading\<close> is true the
  output is the loading indicator alone, whatever \<^verbatim>\<open>error\<close> is: a full-screen
  centring container around one spinner element (the \<^verbatim>\<open>animate-spin\<close> ring), with no
  text. When \<^verbatim>\<open>loading\<close> is not true and \<^verbatim>\<open>error\<close> is a non-empty string \<open>x\<close>, the
  output is the error state alone: a full-screen container around the caption
  \<^verbatim>\<open>Error\<close> and a paragraph with \<open>x\<close>. Neither output contains a \<^verbatim>\<open><section>\<close>
  element or an action-bar button.
\<close>

theorem takeover_states:
  "(loading = Some True \<longrightarrow>
        LayoutRenderer config (cb :: 'cb option) d loading error =
          Inr (Elem ''div'' [(''className'', Str ''flex items-center justify-center min-h-screen'')]
                 [Elem ''div''
                    [(''className'', Str ''animate-spin rounded-full h-12 w-12 border-b-2 border-primary'')]
                    []]))
   \<and> (loading \<noteq> Some True \<and> error = Some x \<and> x \<noteq> [] \<longrightarrow>
        LayoutRenderer config cb d loading error =
          Inr (Elem ''div''
                 [(''className'', Str ''min-h-screen flex items-center justify-center bg-destructive/10'')]
                 [Elem ''div'' [(''className'', Str ''text-center'')]
                    [Elem ''h2'' [(''className'', Str ''text-2xl font-bold text-destructive mb-2'')]
                       [Text ''Error''],
                     Elem ''p'' [(''className'', Str ''text-muted-foreground'')] [Text x]]]))
   \<and> (loading = Some True \<longrightarrow> LayoutRenderer config cb d loading error = Inr loading_indicator)
   \<and> (loading \<noteq> Some True \<and> error = Some x \<and> x \<noteq> [] \<longrightarrow>
        LayoutRenderer config cb d loading error = Inr (error_state x))
   \<and> section_ids (loading_indicator :: 'cb node) = []
   \<and> texts (loading_indicator :: 'cb node) = []
   \<and> action_bar_buttons (loading_indicator :: 'cb node) = []
   \<and> section_ids (error_state x :: 'cb node) = []
   \<and> texts (error_state x :: 'cb node) = [''Error'', x]
   \<and> action_bar_buttons (error_state x :: 'cb node) = []"
  by (simp add: LayoutRenderer_def truthy_str_def loading_indicator_def error_state_def
      action_bar_buttons_def cls_def)

theorem takeover_states_witness:
  "LayoutRenderer (sample_config [sample_section ''s1'' ''cards'' None] None) (None :: unit option) None
     (Some True) (Some ''boom'')
     = Inr (Elem ''div'' [(''className'', Str ''flex items-center justify-center min-h-screen'')]
              [Elem ''div''
                 [(''className'', Str ''animate-spin rounded-full h-12 w-12 border-b-2 border-primary'')]
                 []])
   \<and> Some False \<noteq> Some True \<and> ''boom'' \<noteq> []
   \<and> LayoutRenderer (sample_config [sample_section ''s1'' ''cards'' None] None) (None :: unit option) None
       (Some False) (Some ''boom'')
      = Inr (Elem ''div'' [(''className'', Str ''min-h-screen flex items-center justify-center bg-destructive/10'')]
               [Elem ''div'' [(''className'', Str ''text-center'')]
                  [Elem ''h2'' [(''className'', Str ''text-2xl font-bold text-destructive mb-2'')]
                     [Text ''Error''],
                   Elem ''p'' [(''className'', Str ''text-muted-foreground'')] [Text ''boom'']]])"
proof -
  let ?config = "sample_config [sample_section ''s1'' ''cards'' None] None"
  have h1: "Some True = Some True"
    by simp
  have h2: "Some False \<noteq> Some True \<and> Some ''boom'' = Some ''boom'' \<and> ''boom'' \<noteq> []"
    by simp
  have spinner: "LayoutRenderer ?config (None :: unit option) None (Some True) (Some ''boom'')
     = Inr (Elem ''div'' [(''className'', Str ''flex items-center justify-center min-h-screen'')]
              [Elem ''div''
                 [(''className'', Str ''animate-spin rounded-full h-12 w-12 border-b-2 border-primary'')]
                 []])"
    using h1 takeover_states[of "Some True" ?config "None :: unit option" None "Some ''boom''" "''boom''"]
    by blast
  have failed: "LayoutRenderer ?config (None :: unit option) None (Some False) (Some ''boom'')
      = Inr (Elem ''div'' [(''className'', Str ''min-h-screen flex items-center justify-center bg-destructive/10'')]
               [Elem ''div'' [(''className'', Str ''text-center'')]
                  [Elem ''h2'' [(''className'', Str ''text-2xl font-bold text-destructive mb-2'')]
                     [Text ''Error''],
                   Elem ''p'' [(''className'', Str ''text-muted-foreground'')] [Text ''boom'']]])"
    using h2 takeover_states[of "Some False" ?config "None :: unit option" None "Some ''boom''" "''boom''"]
    by blast
  show ?thesis
    using spinner failed by simp
qed

text \<open>
  Claim C4 (floating-only action bar). Outside the takeover states the output of the
  layout renderer is exactly this: a root whose first child is the container of the
  rendered sections (the renderings of \<^verbatim>\<open>config.sections\<close>, which do not depend on
  \<^verbatim>\<open>config.actions\<close>) and whose only other child, when \<^verbatim>\<open>config.actions\<close> is present
  and not empty, is the action bar. The action bar holds one button for each action
  whose position is \<^verbatim>\<open>"floating"\<close>, in the order of the list, and nothing else; so an
  action at another position is rendered nowhere in the output. For three actions at the
  positions top, floating and bottom, the bar holds the button of the second one only,
  and the buttons found in the action bar of the output are those.
\<close>

theorem floating_only:
  assumes "loading \<noteq> Some True" and "\<not> truthy_str error"
  shows "\<exists>secs.
           map Inr secs = map (\<lambda>section. SectionRenderer section cb d) (lc_sections config)
         \<and> LayoutRenderer config cb d loading error =
             Inr (Elem ''div'' [(''className'', Str ''min-h-screen bg-background'')]
                    (Elem ''div'' [(''className'', Str ''space-y-0'')] secs
                     # (case lc_actions config of
                          None \<Rightarrow> []
                        | Some acts \<Rightarrow>
                            if acts = [] then []
                            else [Elem ''div''
                                    [(''className'', Str ''fixed bottom-6 right-6 flex gap-2 flex-col items-end'')]
                                    (map (\<lambda>a. Elem ''Button''
                                                 [(''key'', Str (la_id a)),
                                                  (''variant'', Str (if la_type a = ''primary''
                                                                     then ''default'' else ''outline'')),
                                                  (''onClick'', OnClick cb (la_id a) (la_payload a)),
                                                  (''className'', Str ''shadow-lg'')]
                                                 [Text (la_label a)])
                                       (filter (\<lambda>a. la_position a = Some ''floating'') acts))])))
         \<and> (lc_actions config = Some [a, b, c] \<and> la_position a = Some ''top''
              \<and> la_position b = Some ''floating'' \<and> la_position c = Some ''bottom''
              \<longrightarrow> LayoutRenderer config cb d loading error =
                    Inr (Elem ''div'' [(''className'', Str ''min-h-screen bg-background'')]
                           [Elem ''div'' [(''className'', Str ''space-y-0'')] secs,
                            Elem ''div''
                              [(''className'', Str ''fixed bottom-6 right-6 flex gap-2 flex-col items-end'')]
                              [Elem ''Button''
                                 [(''key'', Str (la_id b)),
                                  (''variant'', Str (if la_type b = ''primary''
                                                     then ''default'' else ''outline'')),
                                  (''onClick'', OnClick cb (la_id b) (la_payload b)),
                                  (''className'', Str ''shadow-lg'')]
                                 [Text (la_label b)]]]))
         \<and> (\<exists>out. LayoutRenderer config cb d loading error = Inr out
                \<and> action_bar_buttons out =
                    map (ActionBar_button cb)
                      (filter (\<lambda>a. la_position a = Some ''floating'')
                         (case lc_actions config of None \<Rightarrow> [] | Some acts \<Rightarrow> acts)))"
proof -
  obtain secs where
    secs: "sequence_sum (map (\<lambda>section. SectionRenderer section cb d) (lc_sections config)) = Inr secs"
    and pointwise: "map Inr secs = map (\<lambda>section. SectionRenderer section cb d) (lc_sections config)"
    using sections_render by blast
  let ?button = "\<lambda>a. Elem ''Button''
                       [(''key'', Str (la_id a)),
                        (''variant'', Str (if la_type a = ''primary'' then ''default'' else ''outline'')),
                        (''onClick'', OnClick cb (la_id a) (la_payload a)),
                        (''className'', Str ''shadow-lg'')]
                       [Text (la_label a)]"
  let ?bar = "case lc_actions config of
                None \<Rightarrow> []
              | Some acts \<Rightarrow>
                  if acts = [] then []
                  else [Elem ''div''
                          [(''className'', Str ''fixed bottom-6 right-6 flex gap-2 flex-col items-end'')]
                          (map ?button (filter (\<lambda>a. la_position a = Some ''floating'') acts))]"
  have button: "ActionBar_button cb = ?button"
    by (rule ext) (simp add: ActionBar_button_def cls_def)
  have shape: "LayoutRenderer config cb d loading error =
                 Inr (Elem ''div'' [(''className'', Str ''min-h-screen bg-background'')]
                        (Elem ''div'' [(''className'', Str ''space-y-0'')] secs # ?bar))"
  proof (cases "lc_actions config")
    case None
    then show ?thesis
      using assms secs by (simp add: LayoutRenderer_def cls_def)
  next
    case (Some acts)
    then show ?thesis
      using assms secs
      by (cases acts) (simp_all add: LayoutRenderer_def ActionBar_def button cls_def)
  qed
  have example: "LayoutRenderer config cb d loading error =
                    Inr (Elem ''div'' [(''className'', Str ''min-h-screen bg-background'')]
                           [Elem ''div'' [(''className'', Str ''space-y-0'')] secs,
                            Elem ''div''
                              [(''className'', Str ''fixed bottom-6 right-6 flex gap-2 flex-col items-end'')]
                              [?button b]])"
    if "lc_actions config = Some [a, b, c] \<and> la_position a = Some ''top''
        \<and> la_position b = Some ''floating'' \<and> la_position c = Some ''bottom''"
    unfolding shape using that by simp
  have bar: "action_bar_buttons (Elem ''div'' [(''className'', Str ''min-h-screen bg-background'')]
                        (Elem ''div'' [(''className'', Str ''space-y-0'')] secs # ?bar)) =
               map (ActionBar_button cb)
                 (filter (\<lambda>a. la_position a = Some ''floating'')
                    (case lc_actions config of None \<Rightarrow> [] | Some acts \<Rightarrow> acts))"
    unfolding button
    by (cases "lc_actions config") (simp_all add: action_bar_buttons_def)
  show ?thesis
    using pointwise shape example bar by blast
qed

theorem floating_only_witness:
  "None \<noteq> Some True \<and> \<not> truthy_str None
   \<and> lc_actions (sample_config [sample_section ''s1'' ''map'' None]
        (Some [sample_action ''a'' ''top'', sample_action ''b'' ''floating'',
               sample_action ''c'' ''bottom'']))
     = Some [sample_action ''a'' ''top'', sample_action ''b'' ''floating'', sample_action ''c'' ''bottom'']
   \<and> la_position (sample_action ''a'' ''top'') = Some ''top''
   \<and> la_position (sample_action ''b'' ''floating'') = Some ''floating''
   \<and> la_position (sample_action ''c'' ''bottom'') = Some ''bottom''
   \<and> LayoutRenderer
        (sample_config [sample_section ''s1'' ''map'' None]
           (Some [sample_action ''a'' ''top'', sample_action ''b'' ''floating'',
                  sample_action ''c'' ''bottom'']))
        (None :: unit option) None None None
     = Inr (Elem ''div'' [(''className'', Str ''min-h-screen bg-background'')]
              [Elem ''div'' [(''className'', Str ''space-y-0'')]
                 [Elem ''section''
                    [(''id'', Str ''s1''), (''className'', Str ''py-6 container mx-auto px-4'')]
                    [Elem ''MapSection''
                       [(''title'', Undefined), (''data'', Undefined), (''onAction'', Undefined)] []]],
               Elem ''div'' [(''className'', Str ''fixed bottom-6 right-6 flex gap-2 flex-col items-end'')]
                 [Elem ''Button''
                    [(''key'', Str ''b''), (''variant'', Str ''outline''),
                     (''onClick'', OnClick None ''b'' None), (''className'', Str ''shadow-lg'')]
                    [Text ''b'']]])"
proof -
  let ?config = "sample_config [sample_section ''s1'' ''map'' None]
             (Some [sample_action ''a'' ''top'', sample_action ''b'' ''floating'',
                    sample_action ''c'' ''bottom''])"
  have h1: "(None :: bool option) \<noteq> Some True" and h2: "\<not> truthy_str None"
    by (simp_all add: truthy_str_def)
  have h3: "lc_actions ?config =
              Some [sample_action ''a'' ''top'', sample_action ''b'' ''floating'',
                    sample_action ''c'' ''bottom'']
            \<and> la_position (sample_action ''a'' ''top'') = Some ''top''
            \<and> la_position (sample_action ''b'' ''floating'') = Some ''floating''
            \<and> la_position (sample_action ''c'' ''bottom'') = Some ''bottom''"
    by (simp add: sample_config_def sample_action_def)
  obtain secs where
    secs: "map Inr secs = map (\<lambda>section. SectionRenderer section (None :: unit option) None)
                            (lc_sections ?config)" and
    out: "LayoutRenderer ?config (None :: unit option) None None None =
            Inr (Elem ''div'' [(''className'', Str ''min-h-screen bg-background'')]
                   [Elem ''div'' [(''className'', Str ''space-y-0'')] secs,
                    Elem ''div''
                      [(''className'', Str ''fixed bottom-6 right-6 flex gap-2 flex-col items-end'')]
                      [Elem ''Button''
                         [(''key'', Str (la_id (sample_action ''b'' ''floating''))),
                          (''variant'', Str (if la_type (sample_action ''b'' ''floating'') = ''primary''
                                             then ''default'' else ''outline'')),
                          (''onClick'', OnClick None (la_id (sample_action ''b'' ''floating''))
                                          (la_payload (sample_action ''b'' ''floating''))),
                          (''className'', Str ''shadow-lg'')]
                         [Text (la_label (sample_action ''b'' ''floating''))]]])"
    using h3 floating_only[OF h1 h2, where config = ?config and cb = "None :: unit option"
        and d = None and a = "sample_action ''a'' ''top''" and b = "sample_action ''b'' ''floating''"
        and c = "sample_action ''c'' ''bottom''"]
    by blast
  have "secs = [Elem ''section''
                    [(''id'', Str ''s1''), (''className'', Str ''py-6 container mx-auto px-4'')]
                    [Elem ''MapSection''
                       [(''title'', Undefined), (''data'', Undefined), (''onAction'', Undefined)] []]]"
    using secs
    by (auto simp: sample_config_def sample_section_def renderSectionByType_def Let_def truthy_str_def
        containerClass_def opt_def cls_def)
  then show ?thesis
    using h1 h2 h3 out by (simp add: sample_action_def)
qed

text \<open>
  Claim C6 (order preservation, recursive children). Outside the takeover states the
  layout renders; the first child of its root is the container of the rendered sections,
  which are the renderings of \<^verbatim>\<open>config.sections\<close> position by position, whatever their
  types; and the ids of the \<^verbatim>\<open><section>\<close> elements of the whole output, in document
  order, are the ids of the configured sections and their descendants in document order.
  Every section renders as its optional heading, then its own dispatched content, then
  (when it has children) one container holding the renderings of its children, position
  by position, each by \<^verbatim>\<open>SectionRenderer\<close> again.
\<close>

theorem document_order_preserved:
  "(loading \<noteq> Some True \<and> \<not> truthy_str error \<longrightarrow>
      (\<exists>out secs rest.
          LayoutRenderer config cb d loading error = Inr out
        \<and> child_nodes out = Elem ''div'' [cls ''space-y-0''] secs # rest
        \<and> map Inr secs = map (\<lambda>section. SectionRenderer section cb d) (lc_sections config)
        \<and> section_ids out = concat (map document_order (lc_sections config))))
   \<and> (\<exists>out heading body kids.
          SectionRenderer s cb d = Inr out
        \<and> child_nodes out =
            heading @ [body] @ (if kids = [] then [] else [Elem ''div'' [cls ''mt-6 space-y-6''] kids])
        \<and> (heading = [] \<or> (\<exists>t. ls_title s = Some t \<and> heading = [title_heading t]))
        \<and> renderSectionByType s cb d (ls_type s) = Inr body
        \<and> map Inr kids = map (\<lambda>child. SectionRenderer child cb d)
                             (case ls_children s of None \<Rightarrow> [] | Some cs \<Rightarrow> cs)
        \<and> section_ids out = document_order s)"
proof -
  have layout: "\<exists>out secs rest.
          LayoutRenderer config cb d loading error = Inr out
        \<and> child_nodes out = Elem ''div'' [cls ''space-y-0''] secs # rest
        \<and> map Inr secs = map (\<lambda>section. SectionRenderer section cb d) (lc_sections config)
        \<and> section_ids out = concat (map document_order (lc_sections config))"
    if normal: "loading \<noteq> Some True" "\<not> truthy_str error"
  proof -
    obtain secs where secs:
      "sequence_sum (map (\<lambda>section. SectionRenderer section cb d) (lc_sections config)) = Inr secs"
      "map Inr secs = map (\<lambda>section. SectionRenderer section cb d) (lc_sections config)"
      "concat (map section_ids secs) = concat (map document_order (lc_sections config))"
      using sections_render by blast
    show ?thesis
    proof (cases "lc_actions config")
      case None
      then show ?thesis
        using normal secs by (simp add: LayoutRenderer_def cls_def)
    next
      case (Some acts)
      then show ?thesis
        using normal secs
        by (cases acts)
          (simp_all add: LayoutRenderer_def ActionBar_def ActionBar_button_def cls_def comp_def)
    qed
  qed
  obtain kids body where
    kids: "map Inr kids = map (\<lambda>child. SectionRenderer child cb d)
                            (case ls_children s of None \<Rightarrow> [] | Some cs \<Rightarrow> cs)" and
    body: "renderSectionByType s cb d (ls_type s) = Inr body" and
    out: "SectionRenderer s cb d =
         Inr (Elem ''section''
                [(''id'', Str (ls_id s)),
                 cls (containerClass (ls_spacing s) @ '' ''
                      @ (if ls_layout s = Some ''map'' then '''' else ''container mx-auto px-4''))]
                ((if truthy_str (ls_title s) \<and> ls_type s \<noteq> ''header'' \<and> ls_type s \<noteq> ''hero''
                  then [title_heading (the (ls_title s))] else [])
                 @ [body]
                 @ (if length kids > 0 then [Elem ''div'' [cls ''mt-6 space-y-6''] kids] else [])))"
    using SectionRenderer_shape[of cb d s] by auto
  let ?heading = "if truthy_str (ls_title s) \<and> ls_type s \<noteq> ''header'' \<and> ls_type s \<noteq> ''hero''
                  then [title_heading (the (ls_title s))] else []"
  let ?nested = "if kids = [] then [] else [Elem ''div'' [cls ''mt-6 space-y-6''] kids]"
  have heading: "?heading = [] \<or> (\<exists>t. ls_title s = Some t \<and> ?heading = [title_heading t])"
    by (cases "ls_title s") (simp_all add: truthy_str_def)
  have rendered: "SectionRenderer s cb d =
         Inr (Elem ''section''
                [(''id'', Str (ls_id s)),
                 cls (containerClass (ls_spacing s) @ '' ''
                      @ (if ls_layout s = Some ''map'' then '''' else ''container mx-auto px-4''))]
                (?heading @ [body] @ ?nested))"
    using out by simp
  have sect: "\<exists>out heading body kids.
          SectionRenderer s cb d = Inr out
        \<and> child_nodes out =
            heading @ [body] @ (if kids = [] then [] else [Elem ''div'' [cls ''mt-6 space-y-6''] kids])
        \<and> (heading = [] \<or> (\<exists>t. ls_title s = Some t \<and> heading = [title_heading t]))
        \<and> renderSectionByType s cb d (ls_type s) = Inr body
        \<and> map Inr kids = map (\<lambda>child. SectionRenderer child cb d)
                             (case ls_children s of None \<Rightarrow> [] | Some cs \<Rightarrow> cs)
        \<and> section_ids out = document_order s"
  proof (intro exI conjI)
    show "SectionRenderer s cb d =
         Inr (Elem ''section''
                [(''id'', Str (ls_id s)),
                 cls (containerClass (ls_spacing s) @ '' ''
                      @ (if ls_layout s = Some ''map'' then '''' else ''container mx-auto px-4''))]
                (?heading @ [body] @ ?nested))"
      by (rule rendered)
    show "child_nodes (Elem ''section''
                [(''id'', Str (ls_id s)),
                 cls (containerClass (ls_spacing s) @ '' ''
                      @ (if ls_layout s = Some ''map'' then '''' else ''container mx-auto px-4''))]
                (?heading @ [body] @ ?nested)) = ?heading @ [body] @ ?nested"
      by simp
    show "?heading = [] \<or> (\<exists>t. ls_title s = Some t \<and> ?heading = [title_heading t])"
      by (rule heading)
    show "renderSectionByType s cb d (ls_type s) = Inr body"
      by (rule body)
    show "map Inr kids = map (\<lambda>child. SectionRenderer child cb d)
                             (case ls_children s of None \<Rightarrow> [] | Some cs \<Rightarrow> cs)"
      by (rule kids)
    show "section_ids (Elem ''section''
                [(''id'', Str (ls_id s)),
                 cls (containerClass (ls_spacing s) @ '' ''
                      @ (if ls_layout s = Some ''map'' then '''' else ''container mx-auto px-4''))]
                (?heading @ [body] @ ?nested)) = document_order s"
      by (rule SectionRenderer_section_ids[OF rendered])
  qed
  show ?thesis
    using layout sect by blast
qed

theorem document_order_preserved_witness:
  "None \<noteq> Some True \<and> \<not> truthy_str None
   \<and> map_sum id section_ids
       (LayoutRenderer
          (sample_config
             [sample_section ''A'' ''cards''
                (Some [sample_section ''A1'' ''list'' None, sample_section ''A2'' ''banner'' None]),
              sample_section ''B'' ''map'' None,
              sample_section ''C'' ''hero'' None] None)
          (None :: unit option) None None None)
     = Inr [''A'', ''A1'', ''A2'', ''B'', ''C'']"
proof -
  let ?config = "sample_config
             [sample_section ''A'' ''cards''
                (Some [sample_section ''A1'' ''list'' None, sample_section ''A2'' ''banner'' None]),
              sample_section ''B'' ''map'' None,
              sample_section ''C'' ''hero'' None] None"
  have h: "(None :: bool option) \<noteq> Some True \<and> \<not> truthy_str None"
    by (simp add: truthy_str_def)
  obtain out where
    out: "LayoutRenderer ?config (None :: unit option) None None None = Inr out" and
    ids: "section_ids out = concat (map document_order (lc_sections ?config))"
    using h document_order_preserved[of None None ?config "None :: unit option" None
        "sample_section ''B'' ''map'' None"]
    by blast
  have "section_ids out = [''A'', ''A1'', ''A2'', ''B'', ''C'']"
    unfolding ids by (simp add: sample_config_def sample_section_def)
  then show ?thesis
    using h out by simp
qed

text \<open>
  Claim C2 (visibility), amended to what the renderer does. The renderer takes no
  authentication state and no predicate, and never reads the \<^verbatim>\<open>visibility\<close> field:
  a section renders the same as the section with every visibility rule removed from it
  and from its descendants; every section renders, and with it all its descendants (the
  \<^verbatim>\<open><section>\<close> elements of its output are the section and its descendants, in document
  order); and a layout renders the same as the layout over the sections without their
  visibility rules.
\<close>

theorem visibility_ignored:
  "SectionRenderer (clear_visibility s) cb d = SectionRenderer s cb d
   \<and> (\<exists>out. SectionRenderer s cb d = Inr out \<and> section_ids out = document_order s)
   \<and> LayoutRenderer (config\<lparr>lc_sections := map clear_visibility (lc_sections config)\<rparr>) cb d loading error
       = LayoutRenderer config cb d loading error"
proof -
  obtain out where out: "SectionRenderer s cb d = Inr out"
    using SectionRenderer_total by blast
  have "LayoutRenderer (config\<lparr>lc_sections := map clear_visibility (lc_sections config)\<rparr>) cb d loading error
          = LayoutRenderer config cb d loading error"
    unfolding LayoutRenderer_def
    by (simp add: comp_def SectionRenderer_clear_visibility cong: sum.case_cong)
  then show ?thesis
    using out SectionRenderer_section_ids[OF out]
    by (simp add: SectionRenderer_clear_visibility)
qed

text \<open>
  Claim C2 as stated fails on a layout of two sections, one for authenticated callers
  only and one, with a child, for anonymous callers only: whichever the caller's state,
  one of the two fails the visibility check of the specification, and the layout renders
  both, and the child.
\<close>

theorem visibility_counterexample:
  "\<not> spec_visibility_check False Option.is_none (gated_section ''members'' ''authenticated'' None)
   \<and> \<not> spec_visibility_check True Option.is_none
        (gated_section ''guests'' ''anonymous'' (Some [sample_section ''guests-1'' ''list'' None]))
   \<and> map_sum id section_ids
       (LayoutRenderer
          (sample_config
             [gated_section ''members'' ''authenticated'' None,
              gated_section ''guests'' ''anonymous'' (Some [sample_section ''guests-1'' ''list'' None])]
             None)
          (None :: unit option) None None None)
     = Inr [''members'', ''guests'', ''guests-1'']"
  by (simp add: spec_visibility_check_def gated_section_def sample_section_def sample_config_def
      LayoutRenderer_def truthy_str_def renderSectionByType_def ListSection_def content_items_def
      cls_def Let_def)

text \<open>
  A render pass always returns an output: no state of the flags and no configuration
  makes a component raise.
\<close>

lemma LayoutRenderer_total: "\<exists>out. LayoutRenderer config cb d loading error = Inr out"
proof -
  obtain secs where secs:
    "sequence_sum (map (\<lambda>section. SectionRenderer section cb d) (lc_sections config)) = Inr secs"
    using sections_render by blast
  show ?thesis
    using secs by (simp add: LayoutRenderer_def ActionBar_def split: option.splits)
qed

end
